theory Spec2Isabelle
  imports Main "HOL-Library.AList"
begin

section \<open>Data model of \<open>src/index.ts\<close>\<close>

text \<open>
  The plugin is one TypeScript module with two classes, \<open>AirmxPlatform\<close> (the registry of
  accessories) and \<open>AirmxProAccessory\<close> (the characteristic handlers of one accessory).
  JavaScript numbers are IEEE 754 doubles. The device identifiers, the status fields and the
  HomeKit characteristic values used here are integers, and are modelled as \<open>int\<close>:
  equality, comparison and \<open>Math.max\<close> are exact on doubles. The one arithmetic
  operation of the module, the subtraction in \<open>handleFilterLifeLevelGet\<close>, rounds its
  result to a double (\<open>number_minus\<close> below).
\<close>

record Device =
  dev_id :: int
  key :: string

text \<open>
  The cached status of \<open>AccessoryContext\<close> is
  \<open>Pick<EagleStatusData, power | mode | cadr | g4Percent | carbonPercent | hepaPercent | version>\<close>;
  the telemetry record \<open>EagleStatus\<close> carries the same fields and the device identifier.
\<close>

record StatusData =
  power :: int
  mode :: int
  cadr :: int
  g4Percent :: int
  carbonPercent :: int
  hepaPercent :: int
  version :: string

record EagleStatus = StatusData +
  deviceId :: int

record AccessoryContext =
  device :: Device
  status :: "StatusData option"

text \<open>A \<open>PlatformAccessory<AccessoryContext>\<close> object of the host.\<close>

record PlatformAccessory =
  displayName :: string
  UUID :: string
  acc_context :: AccessoryContext

datatype EagleMode = Manual | Ai

fun EagleMode_value :: "EagleMode \<Rightarrow> int" where
  "EagleMode_value Manual = 0"
| "EagleMode_value Ai = 1"

text \<open>\<open>EagleControlData\<close>, and \<open>Partial<EagleControlData>\<close> with every field optional.\<close>

record EagleControlData =
  ctl_power :: int
  ctl_heatStatus :: int
  ctl_mode :: int
  ctl_cadr :: int
  ctl_denoise :: int

record PartialControlData =
  opt_power :: "int option"
  opt_heatStatus :: "int option"
  opt_mode :: "int option"
  opt_cadr :: "int option"
  opt_denoise :: "int option"

definition pluginIdentifier :: string where
  "pluginIdentifier = ''homebridge-airmx''"

definition platformName :: string where
  "platformName = ''Airmx''"

definition stubControl :: EagleControlData where
  "stubControl =
     \<lparr>ctl_power = 0, ctl_heatStatus = 0, ctl_mode = 0, ctl_cadr = 47, ctl_denoise = 0\<rparr>"

text \<open>The object spread \<open>{ ...base, ...data }\<close>: a field present in \<open>data\<close> wins.\<close>

definition spread :: "EagleControlData \<Rightarrow> PartialControlData \<Rightarrow> EagleControlData" where
  "spread base data =
     \<lparr>ctl_power = (case opt_power data of Some v \<Rightarrow> v | None \<Rightarrow> ctl_power base),
      ctl_heatStatus = (case opt_heatStatus data of Some v \<Rightarrow> v | None \<Rightarrow> ctl_heatStatus base),
      ctl_mode = (case opt_mode data of Some v \<Rightarrow> v | None \<Rightarrow> ctl_mode base),
      ctl_cadr = (case opt_cadr data of Some v \<Rightarrow> v | None \<Rightarrow> ctl_cadr base),
      ctl_denoise = (case opt_denoise data of Some v \<Rightarrow> v | None \<Rightarrow> ctl_denoise base)\<rparr>"

definition no_fields :: PartialControlData where
  "no_fields =
     \<lparr>opt_power = None, opt_heatStatus = None, opt_mode = None, opt_cadr = None,
      opt_denoise = None\<rparr>"

subsection \<open>Characteristic constants of the host\<close>

text \<open>
  The handlers return and compare the numeric constants of the host's characteristic
  classes (HAP-NodeJS): \<open>Active\<close>, \<open>CurrentAirPurifierState\<close>, \<open>TargetAirPurifierState\<close>
  and \<open>FilterChangeIndication\<close>.
\<close>

definition Active_INACTIVE :: int where "Active_INACTIVE = 0"
definition Active_ACTIVE :: int where "Active_ACTIVE = 1"

definition CurrentAirPurifierState_INACTIVE :: int where
  "CurrentAirPurifierState_INACTIVE = 0"
definition CurrentAirPurifierState_PURIFYING_AIR :: int where
  "CurrentAirPurifierState_PURIFYING_AIR = 2"

definition TargetAirPurifierState_MANUAL :: int where "TargetAirPurifierState_MANUAL = 0"
definition TargetAirPurifierState_AUTO :: int where "TargetAirPurifierState_AUTO = 1"

definition FilterChangeIndication_FILTER_OK :: int where
  "FilterChangeIndication_FILTER_OK = 0"
definition FilterChangeIndication_CHANGE_FILTER :: int where
  "FilterChangeIndication_CHANGE_FILTER = 1"

subsection \<open>Effects on the collaborators\<close>

text \<open>
  Calls into the logger, the AIRMX client and the host API are recorded, in order, in a
  trace. Accessory objects are referred to by their address in the object store.
\<close>

datatype event =
    LogInfo string int
  | Control int EagleControlData
  | DeviceOn int
  | DeviceOff int
  | DeviceAi int
  | DeviceCadr int int
  | NewAirmxProAccessory nat
  | RegisterPlatformAccessories string string "nat list"
  | UnregisterPlatformAccessories string string "nat list"

text \<open>
  The state: the object store of accessories (\<open>heap\<close>, with \<open>fresh\<close> the next unused
  address), the fields of the \<open>AirmxPlatform\<close> instance (\<open>devices\<close> of its configuration,
  the \<open>accessories\<close> map from UUID to accessory object, in insertion order, and
  \<open>discoveredUuids\<close>) and the trace of calls made so far.
\<close>

record world =
  heap :: "nat \<Rightarrow> PlatformAccessory"
  fresh :: nat
  devices :: "Device list"
  accessories :: "(string \<times> nat) list"
  discoveredUuids :: "string list"
  trace :: "event list"

definition emit :: "event \<Rightarrow> world \<Rightarrow> world" where
  "emit e w = w\<lparr>trace := trace w @ [e]\<rparr>"

text \<open>The platform as its constructor leaves it: no accessory known, none discovered.\<close>

definition AirmxPlatform :: "Device list \<Rightarrow> (nat \<Rightarrow> PlatformAccessory) \<Rightarrow> nat \<Rightarrow> world" where
  "AirmxPlatform config_devices h n =
     \<lparr>heap = h, fresh = n, devices = config_devices, accessories = [],
      discoveredUuids = [], trace = []\<rparr>"

section \<open>AirmxPlatform\<close>

text \<open>
  \<open>generate\<close> stands for \<open>api.hap.uuid.generate(n.toString())\<close> of the host, a function
  of the device identifier.
\<close>

definition set_status :: "StatusData option \<Rightarrow> PlatformAccessory \<Rightarrow> PlatformAccessory" where
  "set_status s a = a\<lparr>acc_context := (acc_context a)\<lparr>status := s\<rparr>\<rparr>"

definition onEagleUpdate :: "(int \<Rightarrow> string) \<Rightarrow> EagleStatus \<Rightarrow> world \<Rightarrow> world" where
  "onEagleUpdate generate st w =
     (let w1 = emit (LogInfo ''Receive a status update from device:'' (deviceId st)) w;
          uuid = generate (deviceId st)
      in case map_of (accessories w1) uuid of
           None \<Rightarrow> w1
         | Some accessory \<Rightarrow>
             (let w2 = emit (LogInfo ''Update the current status to device:'' (deviceId st)) w1
              in w2\<lparr>heap := (heap w2)(accessory :=
                   set_status
                     (Some \<lparr>power = power st, mode = mode st, cadr = cadr st,
                            g4Percent = g4Percent st, carbonPercent = carbonPercent st,
                            hepaPercent = hepaPercent st, version = version st\<rparr>)
                     (heap w2 accessory))\<rparr>))"

definition configureAccessory :: "nat \<Rightarrow> world \<Rightarrow> world" where
  "configureAccessory accessory w =
     (let w1 = emit (LogInfo ''Loading accessory from cache:''
                       (dev_id (device (acc_context (heap w accessory))))) w
      in w1\<lparr>accessories := AList.update (UUID (heap w1 accessory)) accessory (accessories w1)\<rparr>)"

definition restoreAccessory :: "nat \<Rightarrow> world \<Rightarrow> world" where
  "restoreAccessory accessory w =
     (let w1 = emit (LogInfo ''Restoring existing accessory from cache:''
                       (dev_id (device (acc_context (heap w accessory))))) w
      in emit (NewAirmxProAccessory accessory) w1)"

definition registerAccessory :: "nat \<Rightarrow> world \<Rightarrow> world" where
  "registerAccessory accessory w =
     (let w1 = emit (LogInfo ''Adding new accessory:''
                       (dev_id (device (acc_context (heap w accessory))))) w;
          w2 = w1\<lparr>accessories :=
                    AList.update (UUID (heap w1 accessory)) accessory (accessories w1)\<rparr>;
          w3 = emit (NewAirmxProAccessory accessory) w2
      in emit (RegisterPlatformAccessories pluginIdentifier platformName [accessory]) w3)"

text \<open>The body of the loop of \<open>registerDevices\<close>, for one configured device.\<close>

definition registerDevice :: "(int \<Rightarrow> string) \<Rightarrow> Device \<Rightarrow> world \<Rightarrow> world" where
  "registerDevice generate d w =
     (let uuid = generate (dev_id d);
          w1 = (case map_of (accessories w) uuid of
                  Some existingAccessory \<Rightarrow> restoreAccessory existingAccessory w
                | None \<Rightarrow>
                    (let accessory = fresh w;
                         w' = w\<lparr>heap := (heap w)(accessory :=
                                  \<lparr>displayName = ''AIRMX Pro'', UUID = uuid,
                                   acc_context = \<lparr>device = d, status = None\<rparr>\<rparr>),
                                fresh := Suc accessory\<rparr>
                     in registerAccessory accessory w'))
      in w1\<lparr>discoveredUuids := discoveredUuids w1 @ [uuid]\<rparr>)"

definition registerDevices :: "(int \<Rightarrow> string) \<Rightarrow> world \<Rightarrow> world" where
  "registerDevices generate w = fold (registerDevice generate) (devices w) w"

definition cleanUpEntry :: "string \<times> nat \<Rightarrow> world \<Rightarrow> world" where
  "cleanUpEntry entry w =
     (case entry of (uuid, accessory) \<Rightarrow>
        if uuid \<notin> set (discoveredUuids w)
        then emit (UnregisterPlatformAccessories pluginIdentifier platformName [accessory]) w
        else w)"

definition cleanUpObsolete :: "world \<Rightarrow> world" where
  "cleanUpObsolete w = fold cleanUpEntry (accessories w) w"

definition didFinishLaunching :: "(int \<Rightarrow> string) \<Rightarrow> world \<Rightarrow> world" where
  "didFinishLaunching generate w = cleanUpObsolete (registerDevices generate w)"

section \<open>AirmxProAccessory\<close>

text \<open>
  A handler runs on \<open>this.accessory\<close>, the address of the accessory object it was bound
  to. Get handlers only read the state and return the characteristic value; set handlers
  return the state they leave.
\<close>

definition this_status :: "nat \<Rightarrow> world \<Rightarrow> StatusData option" where
  "this_status this w = status (acc_context (heap w this))"

definition this_device :: "nat \<Rightarrow> world \<Rightarrow> Device" where
  "this_device this w = device (acc_context (heap w this))"

text \<open>\<open>x || d\<close> on a possibly undefined string or number: an empty string and 0 are falsy.\<close>

definition or_string :: "string option \<Rightarrow> string \<Rightarrow> string" where
  "or_string x d = (case x of None \<Rightarrow> d | Some s \<Rightarrow> if s = [] then d else s)"

definition or_number :: "int option \<Rightarrow> int \<Rightarrow> int" where
  "or_number x d = (case x of None \<Rightarrow> d | Some n \<Rightarrow> if n = 0 then d else n)"

definition Math_max :: "int \<Rightarrow> int \<Rightarrow> int \<Rightarrow> int" where
  "Math_max a b c = max (max a b) c"

text \<open>
  \<open>a - b\<close> on integer-valued numbers: the exact difference rounded to the nearest double,
  ties to the even mantissa. Every integer of magnitude up to \<open>2^53\<close> is a double; a
  larger magnitude \<open>m\<close> of \<open>bit_length m\<close> binary digits keeps its 53 leading digits.
  (A difference of \<open>100\<close> and a finite double never reaches the overflow threshold, so
  no infinity arises.)
\<close>

function bit_length :: "int \<Rightarrow> nat" where
  "bit_length n = (if n \<le> 0 then 0 else Suc (bit_length (n div 2)))"
  by pat_completeness auto
termination
  by (relation "measure nat") auto

declare bit_length.simps [simp del]

definition round_to_double :: "int \<Rightarrow> int" where
  "round_to_double x =
     (let m = \<bar>x\<bar>
      in if m \<le> 2 ^ 53 then x
         else (let q = 2 ^ (bit_length m - 53);
                   k = m div q;
                   r = m mod q;
                   k' = (if 2 * r < q then k
                         else if q < 2 * r then k + 1
                         else if even k then k else k + 1)
               in sgn x * (k' * q)))"

definition number_minus :: "int \<Rightarrow> int \<Rightarrow> int" where
  "number_minus a b = round_to_double (a - b)"

definition sendRawControl :: "nat \<Rightarrow> PartialControlData \<Rightarrow> world \<Rightarrow> world" where
  "sendRawControl this data w =
     emit (Control (dev_id (this_device this w)) (spread stubControl data)) w"

definition handleFirmwareRevisionGet :: "nat \<Rightarrow> world \<Rightarrow> string" where
  "handleFirmwareRevisionGet this w =
     or_string (map_option version (this_status this w)) ''N/A''"

definition handleActiveGet :: "nat \<Rightarrow> world \<Rightarrow> int" where
  "handleActiveGet this w =
     (case this_status this w of
        None \<Rightarrow> Active_INACTIVE
      | Some s \<Rightarrow> if power s = 1 then Active_ACTIVE else Active_INACTIVE)"

definition handleActiveSet :: "nat \<Rightarrow> int \<Rightarrow> world \<Rightarrow> world" where
  "handleActiveSet this v w =
     (let isOn = (v = Active_ACTIVE)
      in case this_status this w of
           None \<Rightarrow> sendRawControl this (no_fields\<lparr>opt_power := Some (if isOn then 1 else 0)\<rparr>) w
         | Some s \<Rightarrow>
             (if isOn then emit (DeviceOn (dev_id (this_device this w))) w
              else emit (DeviceOff (dev_id (this_device this w))) w))"

definition handleCurrentAirPurifierStateGet :: "nat \<Rightarrow> world \<Rightarrow> int" where
  "handleCurrentAirPurifierStateGet this w =
     (case this_status this w of
        None \<Rightarrow> CurrentAirPurifierState_INACTIVE
      | Some s \<Rightarrow>
          if power s = 1 then CurrentAirPurifierState_PURIFYING_AIR
          else CurrentAirPurifierState_INACTIVE)"

definition handleTargetAirPurifierStateGet :: "nat \<Rightarrow> world \<Rightarrow> int" where
  "handleTargetAirPurifierStateGet this w =
     (case this_status this w of
        None \<Rightarrow> TargetAirPurifierState_MANUAL
      | Some s \<Rightarrow>
          if mode s = EagleMode_value Ai then TargetAirPurifierState_AUTO
          else TargetAirPurifierState_MANUAL)"

definition handleTargetAirPurifierStateSet :: "nat \<Rightarrow> int \<Rightarrow> world \<Rightarrow> world" where
  "handleTargetAirPurifierStateSet this v w =
     (let isAuto = (v = TargetAirPurifierState_AUTO)
      in case this_status this w of
           None \<Rightarrow>
             sendRawControl this
               (no_fields\<lparr>opt_power := Some 1,
                          opt_mode := Some (if isAuto then EagleMode_value Ai
                                            else EagleMode_value Manual)\<rparr>) w
         | Some s \<Rightarrow>
             (if isAuto then emit (DeviceAi (dev_id (this_device this w))) w
              else emit (DeviceCadr (dev_id (this_device this w)) (cadr s)) w))"

definition handleRotationSpeedGet :: "nat \<Rightarrow> world \<Rightarrow> int" where
  "handleRotationSpeedGet this w = or_number (map_option cadr (this_status this w)) 0"

definition handleRotationSpeedSet :: "nat \<Rightarrow> int \<Rightarrow> world \<Rightarrow> world" where
  "handleRotationSpeedSet this v w =
     (case this_status this w of
        None \<Rightarrow>
          sendRawControl this
            (no_fields\<lparr>opt_power := Some 1, opt_mode := Some (EagleMode_value Manual),
                       opt_cadr := Some v\<rparr>) w
      | Some s \<Rightarrow> emit (DeviceCadr (dev_id (this_device this w)) v) w)"

definition handleFilterChangeIndicationGet :: "nat \<Rightarrow> world \<Rightarrow> int" where
  "handleFilterChangeIndicationGet this w =
     (case this_status this w of
        None \<Rightarrow> FilterChangeIndication_FILTER_OK
      | Some s \<Rightarrow>
          (let maxPercent = Math_max (g4Percent s) (carbonPercent s) (hepaPercent s);
               threshold = 80
           in if maxPercent > threshold then FilterChangeIndication_CHANGE_FILTER
              else FilterChangeIndication_FILTER_OK))"

definition handleFilterLifeLevelGet :: "nat \<Rightarrow> world \<Rightarrow> int" where
  "handleFilterLifeLevelGet this w =
     (case this_status this w of
        None \<Rightarrow> 100
      | Some s \<Rightarrow>
          (let maxPercent = Math_max (g4Percent s) (carbonPercent s) (hepaPercent s)
           in number_minus 100 maxPercent))"

section \<open>Entry points\<close>

text \<open>
  What can happen to a running plugin: the host hands over a cached accessory, the host
  finishes launching, the AIRMX client delivers a status update, or the host writes one
  of the three writable characteristics of an accessory.
\<close>

datatype request =
    ConfigureAccessory nat
  | DidFinishLaunching
  | EagleUpdate EagleStatus
  | ActiveSet nat int
  | TargetAirPurifierStateSet nat int
  | RotationSpeedSet nat int

fun serve :: "(int \<Rightarrow> string) \<Rightarrow> request \<Rightarrow> world \<Rightarrow> world" where
  "serve generate (ConfigureAccessory a) w = configureAccessory a w"
| "serve generate DidFinishLaunching w = didFinishLaunching generate w"
| "serve generate (EagleUpdate st) w = onEagleUpdate generate st w"
| "serve generate (ActiveSet this v) w = handleActiveSet this v w"
| "serve generate (TargetAirPurifierStateSet this v) w = handleTargetAirPurifierStateSet this v w"
| "serve generate (RotationSpeedSet this v) w = handleRotationSpeedSet this v w"

fun is_EagleUpdate :: "request \<Rightarrow> bool" where
  "is_EagleUpdate (EagleUpdate st) = True"
| "is_EagleUpdate rq = False"

section \<open>The host's side of the lifecycle\<close>

text \<open>
  The host persists the accessories registered with it and not unregistered since, hands
  them back through \<open>configureAccessory\<close> when the plugin is started again, and then
  fires \<open>didFinishLaunching\<close> once.
\<close>

fun registered :: "event list \<Rightarrow> nat list" where
  "registered [] = []"
| "registered (RegisterPlatformAccessories p n as # es) = as @ registered es"
| "registered (e # es) = registered es"

fun unregistered :: "event list \<Rightarrow> nat list" where
  "unregistered [] = []"
| "unregistered (UnregisterPlatformAccessories p n as # es) = as @ unregistered es"
| "unregistered (e # es) = unregistered es"

definition host_cache :: "event list \<Rightarrow> nat list" where
  "host_cache es = filter (\<lambda>a. a \<notin> set (unregistered es)) (registered es)"

definition launch ::
  "(int \<Rightarrow> string) \<Rightarrow> Device list \<Rightarrow> nat list \<Rightarrow> (nat \<Rightarrow> PlatformAccessory) \<Rightarrow> nat \<Rightarrow> world"
where
  "launch generate config_devices cached h n =
     didFinishLaunching generate
       (fold configureAccessory cached (AirmxPlatform config_devices h n))"

section \<open>Sample inputs\<close>

definition sample_generate :: "int \<Rightarrow> string" where
  "sample_generate n = (if n = 1 then ''uuid-1'' else if n = 2 then ''uuid-2'' else ''uuid-n'')"

definition device_A :: Device where
  "device_A = \<lparr>dev_id = 1, key = ''key-a''\<rparr>"

definition device_B :: Device where
  "device_B = \<lparr>dev_id = 2, key = ''key-b''\<rparr>"

definition blank_accessory :: PlatformAccessory where
  "blank_accessory =
     \<lparr>displayName = [], UUID = [],
      acc_context = \<lparr>device = \<lparr>dev_id = 0, key = []\<rparr>, status = None\<rparr>\<rparr>"

definition sample_status :: "string \<Rightarrow> EagleStatus" where
  "sample_status v =
     \<lparr>power = 1, mode = 1, cadr = 30, g4Percent = 10, carbonPercent = 80, hepaPercent = 20,
      version = v, deviceId = 1\<rparr>"

definition sample_status_B :: EagleStatus where
  "sample_status_B =
     \<lparr>power = 0, mode = 0, cadr = 47, g4Percent = 81, carbonPercent = 5, hepaPercent = 5,
      version = ''2.1'', deviceId = 2\<rparr>"

text \<open>
  After a first start with devices A and B configured: object 0 is A's accessory,
  object 1 is B's, neither has a status.
\<close>

definition sample_world :: world where
  "sample_world = launch sample_generate [device_A, device_B] [] (\<lambda>_. blank_accessory) 0"

text \<open>The same world after device A has reported a status with firmware version \<open>v\<close>.\<close>

definition reported_world :: "string \<Rightarrow> world" where
  "reported_world v = onEagleUpdate sample_generate (sample_status v) sample_world"

text \<open>
  A second start with only device A configured, both accessories handed back by the
  host, after the devices were registered and before obsolete accessories are cleaned up.
\<close>

definition restarted_world :: world where
  "restarted_world =
     registerDevices sample_generate
       (fold configureAccessory (host_cache (trace sample_world))
          (AirmxPlatform [device_A] (heap sample_world) (fresh sample_world)))"

section \<open>Facts about the sample worlds\<close>

lemmas characteristic_defs =
  Active_INACTIVE_def Active_ACTIVE_def CurrentAirPurifierState_INACTIVE_def
  CurrentAirPurifierState_PURIFYING_AIR_def TargetAirPurifierState_MANUAL_def
  TargetAirPurifierState_AUTO_def FilterChangeIndication_FILTER_OK_def
  FilterChangeIndication_CHANGE_FILTER_def

lemmas launch_defs = launch_def didFinishLaunching_def registerDevices_def registerDevice_def
  registerAccessory_def restoreAccessory_def cleanUpObsolete_def cleanUpEntry_def
  AirmxPlatform_def emit_def configureAccessory_def

lemmas sample_defs = sample_world_def sample_generate_def device_A_def device_B_def
  blank_accessory_def sample_status_def pluginIdentifier_def platformName_def

lemma sample_world_accessories:
  "accessories sample_world = [(''uuid-1'', 0), (''uuid-2'', 1)]"
  by (simp add: launch_defs sample_defs Let_def)

lemma sample_world_discoveredUuids:
  "discoveredUuids sample_world = [''uuid-1'', ''uuid-2'']"
  by (simp add: launch_defs sample_defs Let_def)

lemma sample_world_heap:
  "heap sample_world 0 =
     \<lparr>displayName = ''AIRMX Pro'', UUID = ''uuid-1'',
      acc_context = \<lparr>device = device_A, status = None\<rparr>\<rparr>"
  "heap sample_world (Suc 0) =
     \<lparr>displayName = ''AIRMX Pro'', UUID = ''uuid-2'',
      acc_context = \<lparr>device = device_B, status = None\<rparr>\<rparr>"
  by (simp_all add: launch_defs sample_defs Let_def)

lemma sample_world_trace:
  "trace sample_world =
     [LogInfo ''Adding new accessory:'' 1, NewAirmxProAccessory 0,
      RegisterPlatformAccessories pluginIdentifier platformName [0],
      LogInfo ''Adding new accessory:'' 2, NewAirmxProAccessory 1,
      RegisterPlatformAccessories pluginIdentifier platformName [1]]"
  by (simp add: launch_defs sample_defs Let_def)

lemma sample_world_fresh: "fresh sample_world = 2"
  by (simp add: launch_defs sample_defs Let_def)

lemma reported_world_status:
  "this_status 0 (reported_world v) =
     Some \<lparr>power = 1, mode = 1, cadr = 30, g4Percent = 10, carbonPercent = 80,
           hepaPercent = 20, version = v\<rparr>"
  by (simp add: reported_world_def onEagleUpdate_def emit_def Let_def this_status_def
      set_status_def sample_world_accessories sample_generate_def sample_status_def)

lemma reported_world_device: "this_device 0 (reported_world v) = device_A"
  by (simp add: reported_world_def onEagleUpdate_def emit_def Let_def this_device_def
      set_status_def sample_world_accessories sample_world_heap sample_generate_def sample_status_def)

lemma sample_world_this:
  "this_status 0 sample_world = None" "this_device 0 sample_world = device_A"
  by (simp_all add: this_status_def this_device_def sample_world_heap)

section \<open>Facts about number arithmetic\<close>

lemma number_minus_exact: "\<bar>a - b\<bar> \<le> 2 ^ 53 \<Longrightarrow> number_minus a b = a - b"
  by (simp add: number_minus_def round_to_double_def Let_def)

text \<open>
  Beyond \<open>2^53\<close> the subtraction is no longer exact: the exact difference below is
  9007199254741091, which lies half way between two doubles.
\<close>

lemma number_minus_rounds: "number_minus 100 (- 9007199254740991) = 9007199254741092"
  by code_simp

section \<open>Characteristic reads and writes\<close>

text \<open>
  Claim C1. When the accessory has no cached status, a characteristic write sends, through
  \<open>airmx.control\<close>, the stub command with only the written fields replaced: Active = on
  sends power 1, heat status 0, mode Manual, cadr 47, denoise 0; Active = off sends the stub
  itself; RotationSpeed = n sends power 1, mode Manual and cadr n; TargetAirPurifierState
  sends power 1 and the requested mode.
\<close>

theorem unknown_status_write_issues_stub_command:
  assumes "this_status this w = None"
  shows "handleActiveSet this Active_ACTIVE w =
           emit (Control (dev_id (this_device this w))
                   \<lparr>ctl_power = 1, ctl_heatStatus = 0, ctl_mode = EagleMode_value Manual,
                    ctl_cadr = 47, ctl_denoise = 0\<rparr>) w
       \<and> handleActiveSet this Active_INACTIVE w =
           emit (Control (dev_id (this_device this w)) stubControl) w
       \<and> handleRotationSpeedSet this n w =
           emit (Control (dev_id (this_device this w))
                   \<lparr>ctl_power = 1, ctl_heatStatus = 0, ctl_mode = EagleMode_value Manual,
                    ctl_cadr = n, ctl_denoise = 0\<rparr>) w
       \<and> handleTargetAirPurifierStateSet this v w =
           emit (Control (dev_id (this_device this w))
                   \<lparr>ctl_power = 1, ctl_heatStatus = 0,
                    ctl_mode = (if v = TargetAirPurifierState_AUTO then EagleMode_value Ai
                                else EagleMode_value Manual),
                    ctl_cadr = 47, ctl_denoise = 0\<rparr>) w
       \<and> stubControl =
           \<lparr>ctl_power = 0, ctl_heatStatus = 0, ctl_mode = EagleMode_value Manual,
            ctl_cadr = 47, ctl_denoise = 0\<rparr>"
  using assms
  by (simp add: handleActiveSet_def handleRotationSpeedSet_def
      handleTargetAirPurifierStateSet_def sendRawControl_def spread_def no_fields_def
      stubControl_def characteristic_defs)

theorem unknown_status_write_issues_stub_command_witness:
  "this_status 0 sample_world = None
   \<and> trace (handleActiveSet 0 Active_ACTIVE sample_world) =
       trace sample_world @
       [Control 1 \<lparr>ctl_power = 1, ctl_heatStatus = 0, ctl_mode = 0, ctl_cadr = 47,
                   ctl_denoise = 0\<rparr>]
   \<and> trace (handleRotationSpeedSet 0 30 sample_world) =
       trace sample_world @
       [Control 1 \<lparr>ctl_power = 1, ctl_heatStatus = 0, ctl_mode = 0, ctl_cadr = 30,
                   ctl_denoise = 0\<rparr>]"
  using unknown_status_write_issues_stub_command [of 0 sample_world 30 0]
  by (simp add: sample_world_this emit_def device_A_def)

text \<open>
  Claim C2. When the accessory has no cached status, each of the seven reads returns its
  default: Active INACTIVE, CurrentAirPurifierState INACTIVE, TargetAirPurifierState MANUAL,
  RotationSpeed 0, FilterChangeIndication FILTER_OK, FilterLifeLevel 100 and
  FirmwareRevision "N/A".
\<close>

theorem unknown_status_reads_default:
  assumes "this_status this w = None"
  shows "handleActiveGet this w = Active_INACTIVE
       \<and> handleCurrentAirPurifierStateGet this w = CurrentAirPurifierState_INACTIVE
       \<and> handleTargetAirPurifierStateGet this w = TargetAirPurifierState_MANUAL
       \<and> handleRotationSpeedGet this w = 0
       \<and> handleFilterChangeIndicationGet this w = FilterChangeIndication_FILTER_OK
       \<and> handleFilterLifeLevelGet this w = 100
       \<and> handleFirmwareRevisionGet this w = ''N/A''"
  using assms
  by (simp add: handleActiveGet_def handleCurrentAirPurifierStateGet_def
      handleTargetAirPurifierStateGet_def handleRotationSpeedGet_def
      handleFilterChangeIndicationGet_def handleFilterLifeLevelGet_def
      handleFirmwareRevisionGet_def or_number_def or_string_def)

theorem unknown_status_reads_default_witness:
  "this_status 0 sample_world = None
   \<and> handleActiveGet 0 sample_world = 0
   \<and> handleCurrentAirPurifierStateGet 0 sample_world = 0
   \<and> handleTargetAirPurifierStateGet 0 sample_world = 0
   \<and> handleRotationSpeedGet 0 sample_world = 0
   \<and> handleFilterChangeIndicationGet 0 sample_world = 0
   \<and> handleFilterLifeLevelGet 0 sample_world = 100
   \<and> handleFirmwareRevisionGet 0 sample_world = ''N/A''"
  using unknown_status_reads_default [of 0 sample_world]
  by (simp add: sample_world_this characteristic_defs)

text \<open>
  Claim C6. With a cached status, FilterChangeIndication reads CHANGE_FILTER exactly when the
  largest of the three filter percentages is above 80, and FILTER_OK exactly when it is at
  most 80 (so also at exactly 80).
\<close>

theorem filter_change_indication_threshold:
  assumes "this_status this w = Some s"
  shows "(handleFilterChangeIndicationGet this w = FilterChangeIndication_CHANGE_FILTER
            \<longleftrightarrow> 80 < Max {g4Percent s, carbonPercent s, hepaPercent s})
       \<and> (handleFilterChangeIndicationGet this w = FilterChangeIndication_FILTER_OK
            \<longleftrightarrow> Max {g4Percent s, carbonPercent s, hepaPercent s} \<le> 80)"
  using assms
  by (auto simp add: handleFilterChangeIndicationGet_def Math_max_def Let_def
      characteristic_defs)

theorem filter_change_indication_threshold_witness:
  "this_status 0 (reported_world ''1.0'') =
     Some \<lparr>power = 1, mode = 1, cadr = 30, g4Percent = 10, carbonPercent = 80,
           hepaPercent = 20, version = ''1.0''\<rparr>
   \<and> handleFilterChangeIndicationGet 0 (reported_world ''1.0'') =
       FilterChangeIndication_FILTER_OK"
  using filter_change_indication_threshold [OF reported_world_status, of "''1.0''"]
  by (simp add: reported_world_status)

text \<open>
  Claim C7. With a cached status whose three filter percentages are integers from 0 to 100,
  as the status of a device has them, FilterLifeLevel reads 100 minus the largest of the
  three, so the two always add up to 100.
\<close>

theorem filter_life_level_complement:
  assumes "this_status this w = Some s"
    and "0 \<le> g4Percent s \<and> g4Percent s \<le> 100"
    and "0 \<le> carbonPercent s \<and> carbonPercent s \<le> 100"
    and "0 \<le> hepaPercent s \<and> hepaPercent s \<le> 100"
  shows "handleFilterLifeLevelGet this w =
           100 - Max {g4Percent s, carbonPercent s, hepaPercent s}
       \<and> handleFilterLifeLevelGet this w
           + Max {g4Percent s, carbonPercent s, hepaPercent s} = 100"
proof -
  let ?m = "Math_max (g4Percent s) (carbonPercent s) (hepaPercent s)"
  have max_eq: "Max {g4Percent s, carbonPercent s, hepaPercent s} = ?m"
    by (simp add: Math_max_def max.commute max.left_commute)
  have "0 \<le> ?m \<and> ?m \<le> 100"
    using assms(2-4) unfolding Math_max_def by linarith
  then have "\<bar>100 - ?m\<bar> \<le> 2 ^ 53"
    by simp
  then have "number_minus 100 ?m = 100 - ?m"
    by (rule number_minus_exact)
  then have "handleFilterLifeLevelGet this w = 100 - ?m"
    using assms(1) by (simp add: handleFilterLifeLevelGet_def Let_def)
  then show ?thesis
    by (simp only: max_eq) simp
qed

theorem filter_life_level_complement_witness:
  "this_status 0 (reported_world ''1.0'') =
     Some \<lparr>power = 1, mode = 1, cadr = 30, g4Percent = 10, carbonPercent = 80,
           hepaPercent = 20, version = ''1.0''\<rparr>
   \<and> (0::int) \<le> 10 \<and> (10::int) \<le> 100 \<and> (0::int) \<le> 80 \<and> (80::int) \<le> 100
   \<and> (0::int) \<le> 20 \<and> (20::int) \<le> 100
   \<and> handleFilterLifeLevelGet 0 (reported_world ''1.0'') = 20"
  using filter_life_level_complement [OF reported_world_status, of "''1.0''"]
  by (simp add: reported_world_status)

text \<open>
  Claim C8. With a cached status, writing TargetAirPurifierState = AUTO calls \<open>ai()\<close> on
  the device, and writing MANUAL (or any other value) calls \<open>cadr\<close> with the cadr of the
  cached status.
\<close>

theorem target_state_write_known_status:
  assumes "this_status this w = Some s"
  shows "handleTargetAirPurifierStateSet this TargetAirPurifierState_AUTO w =
           emit (DeviceAi (dev_id (this_device this w))) w
       \<and> handleTargetAirPurifierStateSet this TargetAirPurifierState_MANUAL w =
           emit (DeviceCadr (dev_id (this_device this w)) (cadr s)) w
       \<and> handleTargetAirPurifierStateSet this v w =
           emit (if v = TargetAirPurifierState_AUTO
                 then DeviceAi (dev_id (this_device this w))
                 else DeviceCadr (dev_id (this_device this w)) (cadr s)) w"
  using assms
  by (simp add: handleTargetAirPurifierStateSet_def characteristic_defs)

theorem target_state_write_known_status_witness:
  "this_status 0 (reported_world ''1.0'') =
     Some \<lparr>power = 1, mode = 1, cadr = 30, g4Percent = 10, carbonPercent = 80,
           hepaPercent = 20, version = ''1.0''\<rparr>
   \<and> trace (handleTargetAirPurifierStateSet 0 TargetAirPurifierState_AUTO
              (reported_world ''1.0'')) =
       trace (reported_world ''1.0'') @ [DeviceAi 1]
   \<and> trace (handleTargetAirPurifierStateSet 0 TargetAirPurifierState_MANUAL
              (reported_world ''1.0'')) =
       trace (reported_world ''1.0'') @ [DeviceCadr 1 30]"
  using target_state_write_known_status [OF reported_world_status, of "''1.0''" 0]
  by (simp add: reported_world_status reported_world_device emit_def device_A_def)

text \<open>
  Claim C9, as stated, fails: a cached status whose version is the empty string reads as
  "N/A", not as the empty string.
\<close>

theorem firmware_revision_empty_version_reads_NA:
  "this_status 0 (reported_world '''') =
     Some \<lparr>power = 1, mode = 1, cadr = 30, g4Percent = 10, carbonPercent = 80,
           hepaPercent = 20, version = ''''\<rparr>
   \<and> handleFirmwareRevisionGet 0 (reported_world '''') = ''N/A''
   \<and> handleFirmwareRevisionGet 0 (reported_world '''') \<noteq> ''''"
  by (simp add: handleFirmwareRevisionGet_def or_string_def reported_world_status)

text \<open>
  Claim C9, as amended. With a cached status, FirmwareRevision reads the version string of
  the status when that string is not empty, and "N/A" when it is empty.
\<close>

theorem firmware_revision_read:
  assumes "this_status this w = Some s"
  shows "handleFirmwareRevisionGet this w = (if version s = [] then ''N/A'' else version s)"
  using assms by (simp add: handleFirmwareRevisionGet_def or_string_def)

theorem firmware_revision_read_witness:
  "this_status 0 (reported_world ''1.0'') =
     Some \<lparr>power = 1, mode = 1, cadr = 30, g4Percent = 10, carbonPercent = 80,
           hepaPercent = 20, version = ''1.0''\<rparr>
   \<and> handleFirmwareRevisionGet 0 (reported_world ''1.0'') = ''1.0''"
  using firmware_revision_read [OF reported_world_status, of "''1.0''"]
  by (simp add: reported_world_status)

section \<open>Facts about the platform\<close>

subsection \<open>Traces\<close>

lemma unregistered_append: "unregistered (es @ fs) = unregistered es @ unregistered fs"
  by (induction es rule: unregistered.induct) simp_all

subsection \<open>cleanUpObsolete\<close>

lemma cleanUpEntry_eq:
  "cleanUpEntry (uuid, a) w =
     (if uuid \<notin> set (discoveredUuids w)
      then w\<lparr>trace := trace w @
                [UnregisterPlatformAccessories pluginIdentifier platformName [a]]\<rparr>
      else w)"
  by (simp add: cleanUpEntry_def emit_def)

lemma fold_cleanUpEntry:
  "fold cleanUpEntry xs w =
     w\<lparr>trace := trace w @
          map (\<lambda>(uuid, a). UnregisterPlatformAccessories pluginIdentifier platformName [a])
            (filter (\<lambda>(uuid, a). uuid \<notin> set (discoveredUuids w)) xs)\<rparr>"
proof (induction xs arbitrary: w)
  case Nil
  show ?case by simp
next
  case (Cons x xs)
  obtain uuid a where x: "x = (uuid, a)" by (cases x)
  show ?case
  proof (cases "uuid \<in> set (discoveredUuids w)")
    case True
    then have "cleanUpEntry x w = w" by (simp add: x cleanUpEntry_eq)
    then show ?thesis using True by (simp add: Cons.IH x)
  next
    case False
    define w' where "w' = w\<lparr>trace := trace w @
                [UnregisterPlatformAccessories pluginIdentifier platformName [a]]\<rparr>"
    have "cleanUpEntry x w = w'" using False by (simp add: x cleanUpEntry_eq w'_def)
    then have "fold cleanUpEntry (x # xs) w = fold cleanUpEntry xs w'" by simp
    also have "\<dots> = w'\<lparr>trace := trace w' @
          map (\<lambda>(uuid, a). UnregisterPlatformAccessories pluginIdentifier platformName [a])
            (filter (\<lambda>(uuid, a). uuid \<notin> set (discoveredUuids w')) xs)\<rparr>"
      by (rule Cons.IH)
    also have "\<dots> = w\<lparr>trace := trace w @
          map (\<lambda>(uuid, a). UnregisterPlatformAccessories pluginIdentifier platformName [a])
            (filter (\<lambda>(uuid, a). uuid \<notin> set (discoveredUuids w)) (x # xs))\<rparr>"
      using False by (simp add: w'_def x)
    finally show ?thesis .
  qed
qed

lemma unregistered_map_Unregister:
  "unregistered (map (\<lambda>(uuid, a). UnregisterPlatformAccessories p n [a]) xs) = map snd xs"
  by (induction xs) auto

lemma cleanUpObsolete_eq:
  "cleanUpObsolete w =
     w\<lparr>trace := trace w @
          map (\<lambda>(uuid, a). UnregisterPlatformAccessories pluginIdentifier platformName [a])
            (filter (\<lambda>(uuid, a). uuid \<notin> set (discoveredUuids w)) (accessories w))\<rparr>"
  by (simp add: cleanUpObsolete_def fold_cleanUpEntry)

lemma unregistered_cleanUpObsolete:
  "unregistered (trace (cleanUpObsolete w)) =
     unregistered (trace w) @
       map snd (filter (\<lambda>(uuid, a). uuid \<notin> set (discoveredUuids w)) (accessories w))"
  by (simp add: cleanUpObsolete_eq unregistered_append unregistered_map_Unregister)

subsection \<open>registerDevices\<close>

lemma update_fresh_key: "map_of al k = None \<Longrightarrow> AList.update k v al = al @ [(k, v)]"
  by (induction al) (auto split: if_splits)

lemma registerDevice_accessories:
  "accessories (registerDevice g d w) =
     (case map_of (accessories w) (g (dev_id d)) of
        Some a \<Rightarrow> accessories w
      | None \<Rightarrow> accessories w @ [(g (dev_id d), fresh w)])"
  by (simp add: registerDevice_def registerAccessory_def restoreAccessory_def emit_def Let_def
      update_fresh_key split: option.split)

lemma registerDevice_discoveredUuids:
  "discoveredUuids (registerDevice g d w) = discoveredUuids w @ [g (dev_id d)]"
  by (simp add: registerDevice_def registerAccessory_def restoreAccessory_def emit_def Let_def
      split: option.split)

lemma registerDevice_unregistered:
  "unregistered (trace (registerDevice g d w)) = unregistered (trace w)"
  by (simp add: registerDevice_def registerAccessory_def restoreAccessory_def emit_def Let_def
      unregistered_append split: option.split)

lemma registerDevice_heap:
  "a < fresh w \<Longrightarrow> heap (registerDevice g d w) a = heap w a"
  by (simp add: registerDevice_def registerAccessory_def restoreAccessory_def emit_def Let_def
      split: option.split)

lemma registerDevice_fresh: "fresh w \<le> fresh (registerDevice g d w)"
  by (simp add: registerDevice_def registerAccessory_def restoreAccessory_def emit_def Let_def
      split: option.split)

lemma fold_registerDevice_discoveredUuids:
  "discoveredUuids (fold (registerDevice g) ds w) = discoveredUuids w @ map (g \<circ> dev_id) ds"
  by (induction ds arbitrary: w) (simp_all add: registerDevice_discoveredUuids)

lemma fold_registerDevice_unregistered:
  "unregistered (trace (fold (registerDevice g) ds w)) = unregistered (trace w)"
  by (induction ds arbitrary: w) (simp_all add: registerDevice_unregistered)

lemma fold_registerDevice_heap:
  "a < fresh w \<Longrightarrow> heap (fold (registerDevice g) ds w) a = heap w a"
proof (induction ds arbitrary: w)
  case Nil
  show ?case by simp
next
  case (Cons d ds)
  have "a < fresh (registerDevice g d w)"
    using Cons.prems registerDevice_fresh [of w g d] by simp
  then show ?case
    using Cons.IH [of "registerDevice g d w"] Cons.prems by (simp add: registerDevice_heap)
qed

lemma fold_registerDevice_accessories:
  "\<exists>new. accessories (fold (registerDevice g) ds w) = accessories w @ new
         \<and> fst ` set new \<subseteq> g ` dev_id ` set ds"
proof (induction ds arbitrary: w)
  case Nil
  show ?case by simp
next
  case (Cons d ds)
  obtain new where new:
    "accessories (fold (registerDevice g) ds (registerDevice g d w)) =
       accessories (registerDevice g d w) @ new"
    "fst ` set new \<subseteq> g ` dev_id ` set ds"
    using Cons.IH [of "registerDevice g d w"] by blast
  show ?case
  proof (cases "map_of (accessories w) (g (dev_id d))")
    case None
    then have "accessories (fold (registerDevice g) (d # ds) w) =
                 accessories w @ ((g (dev_id d), fresh w) # new)"
      using new(1) by (simp add: registerDevice_accessories)
    moreover have "fst ` set ((g (dev_id d), fresh w) # new) \<subseteq> g ` dev_id ` set (d # ds)"
      using new(2) by auto
    ultimately show ?thesis by blast
  next
    case (Some a)
    then have "accessories (fold (registerDevice g) (d # ds) w) = accessories w @ new"
      using new(1) by (simp add: registerDevice_accessories)
    moreover have "fst ` set new \<subseteq> g ` dev_id ` set (d # ds)"
      using new(2) by auto
    ultimately show ?thesis by blast
  qed
qed

lemma registerDevices_accessories:
  "\<exists>new. accessories (registerDevices g w) = accessories w @ new
         \<and> fst ` set new \<subseteq> g ` dev_id ` set (devices w)"
  unfolding registerDevices_def by (rule fold_registerDevice_accessories)

lemma registerDevices_discoveredUuids:
  "discoveredUuids (registerDevices g w) = discoveredUuids w @ map (g \<circ> dev_id) (devices w)"
  unfolding registerDevices_def by (rule fold_registerDevice_discoveredUuids)

lemma registerDevices_unregistered:
  "unregistered (trace (registerDevices g w)) = unregistered (trace w)"
  unfolding registerDevices_def by (rule fold_registerDevice_unregistered)

lemma registerDevices_heap:
  "a < fresh w \<Longrightarrow> heap (registerDevices g w) a = heap w a"
  unfolding registerDevices_def by (rule fold_registerDevice_heap)

lemma unregistered_didFinishLaunching:
  "unregistered (trace (didFinishLaunching g w)) =
     unregistered (trace w) @
       map snd (filter (\<lambda>(uuid, a). uuid \<notin> set (discoveredUuids w) \<union> g ` dev_id ` set (devices w))
                  (accessories w))"
proof -
  let ?seen = "set (discoveredUuids w) \<union> g ` dev_id ` set (devices w)"
  obtain new where new:
    "accessories (registerDevices g w) = accessories w @ new"
    "fst ` set new \<subseteq> g ` dev_id ` set (devices w)"
    using registerDevices_accessories [of g w] by (elim exE conjE)
  have seen: "set (discoveredUuids (registerDevices g w)) = ?seen"
    by (simp add: registerDevices_discoveredUuids image_image)
  have "\<forall>x \<in> set new. fst x \<in> ?seen"
    using new(2) by auto
  then have none: "filter (\<lambda>(uuid, a). uuid \<notin> ?seen) new = []"
    by (simp add: filter_empty_conv split_beta)
  have "unregistered (trace (didFinishLaunching g w)) =
          unregistered (trace (registerDevices g w)) @
            map snd (filter (\<lambda>(uuid, a). uuid \<notin> ?seen) (accessories w @ new))"
    unfolding didFinishLaunching_def unregistered_cleanUpObsolete seen new(1) ..
  then show ?thesis
    by (simp only: registerDevices_unregistered filter_append none append_Nil2)
qed


subsection \<open>configureAccessory\<close>

lemma fold_configureAccessory_frame:
  "discoveredUuids (fold configureAccessory cached w) = discoveredUuids w
   \<and> devices (fold configureAccessory cached w) = devices w
   \<and> heap (fold configureAccessory cached w) = heap w
   \<and> fresh (fold configureAccessory cached w) = fresh w
   \<and> unregistered (trace (fold configureAccessory cached w)) = unregistered (trace w)"
  by (induction cached arbitrary: w)
     (simp_all add: configureAccessory_def emit_def Let_def unregistered_append)

lemma unregistered_launch:
  "unregistered (trace (launch g ds cached h n)) =
     map snd (filter (\<lambda>(uuid, a). uuid \<notin> g ` dev_id ` set ds)
                (accessories (fold configureAccessory cached (AirmxPlatform ds h n))))"
  by (simp add: launch_def unregistered_didFinishLaunching fold_configureAccessory_frame)
     (simp add: AirmxPlatform_def)

lemma two_starts:
  assumes "g (dev_id A) \<noteq> g (dev_id B)"
  shows "(let first = launch g [A, B] [] h n;
              second = launch g [A] (host_cache (trace first)) (heap first) (fresh first)
          in host_cache (trace first) = [n, Suc n]
             \<and> device (acc_context (heap second n)) = A
             \<and> device (acc_context (heap second (Suc n))) = B
             \<and> unregistered (trace second) = [Suc n])"
  using assms assms [symmetric]
  by (simp add: launch_defs host_cache_def Let_def)

lemma restarted_world_accessories:
  "accessories restarted_world = [(''uuid-1'', 0), (''uuid-2'', Suc 0)]"
  "discoveredUuids restarted_world = [''uuid-1'']"
  by (simp_all add: restarted_world_def sample_world_trace sample_world_heap sample_world_fresh
      host_cache_def registerDevices_def registerDevice_def
      registerAccessory_def restoreAccessory_def 
      AirmxPlatform_def emit_def configureAccessory_def Let_def sample_generate_def device_A_def)

lemma set_handler_frames:
  "(handleActiveSet this v w)\<lparr>trace := trace w\<rparr> = w"
  "(handleTargetAirPurifierStateSet this v w)\<lparr>trace := trace w\<rparr> = w"
  "(handleRotationSpeedSet this v w)\<lparr>trace := trace w\<rparr> = w"
  by (simp_all add: handleActiveSet_def handleTargetAirPurifierStateSet_def
      handleRotationSpeedSet_def sendRawControl_def emit_def Let_def split: option.split)

lemma trace_update_heap: "w'\<lparr>trace := t\<rparr> = w \<Longrightarrow> heap w' = heap w"
  by (cases w', cases w) simp

lemma serve_heap:
  assumes "a < fresh w" and "\<not> is_EagleUpdate rq"
  shows "heap (serve generate rq w) a = heap w a"
proof (cases rq)
  case (ConfigureAccessory x)
  then show ?thesis by (simp add: configureAccessory_def emit_def Let_def)
next
  case DidFinishLaunching
  then show ?thesis
    using assms(1)
    by (simp add: didFinishLaunching_def cleanUpObsolete_eq registerDevices_heap)
next
  case (EagleUpdate st)
  then show ?thesis using assms(2) by simp
next
  case (ActiveSet this v)
  then show ?thesis using trace_update_heap [OF set_handler_frames(1)] by simp
next
  case (TargetAirPurifierStateSet this v)
  then show ?thesis using trace_update_heap [OF set_handler_frames(2)] by simp
next
  case (RotationSpeedSet this v)
  then show ?thesis using trace_update_heap [OF set_handler_frames(3)] by simp
qed

lemma reported_world_fresh: "fresh (reported_world v) = 2"
  by (simp add: reported_world_def onEagleUpdate_def emit_def Let_def sample_world_fresh
      split: option.split)

section \<open>Registry, telemetry and pruning\<close>

text \<open>
  Claim C3. Start the plugin with devices A and B configured and nothing cached; the host
  then holds both accessories. Start it again with only A configured: the host hands both
  accessories back, and the pass unregisters B's accessory and not A's. In general a start
  unregisters exactly the accessories already in the map (those handed back by the host)
  whose UUID is not that of a configured device, and \<open>cleanUpObsolete\<close> unregisters
  exactly the accessories of the map whose UUID is not in \<open>discoveredUuids\<close>.
\<close>

theorem pruning_unregisters_unseen_accessories:
  assumes "generate (dev_id A) \<noteq> generate (dev_id B)"
  shows "(let first = launch generate [A, B] [] h n;
              second = launch generate [A] (host_cache (trace first)) (heap first) (fresh first)
          in host_cache (trace first) = [n, Suc n]
             \<and> device (acc_context (heap second n)) = A
             \<and> device (acc_context (heap second (Suc n))) = B
             \<and> unregistered (trace second) = [Suc n])
       \<and> unregistered (trace (launch generate ds cached h' n')) =
           map snd (filter (\<lambda>(uuid, a). uuid \<notin> generate ` dev_id ` set ds)
                      (accessories (fold configureAccessory cached (AirmxPlatform ds h' n'))))
       \<and> unregistered (trace (cleanUpObsolete w)) =
           unregistered (trace w) @
             map snd (filter (\<lambda>(uuid, a). uuid \<notin> set (discoveredUuids w)) (accessories w))"
  using two_starts [OF assms, of h n] unregistered_launch [of generate ds cached h' n']
    unregistered_cleanUpObsolete [of w]
  by (simp only: simp_thms)

theorem pruning_unregisters_unseen_accessories_witness:
  "sample_generate (dev_id device_A) \<noteq> sample_generate (dev_id device_B)
   \<and> host_cache (trace sample_world) = [0, Suc 0]
   \<and> unregistered
        (trace (launch sample_generate [device_A] (host_cache (trace sample_world))
                  (heap sample_world) (fresh sample_world))) = [Suc 0]
   \<and> device (acc_context (heap sample_world (Suc 0))) = device_B"
proof -
  have ne: "sample_generate (dev_id device_A) \<noteq> sample_generate (dev_id device_B)"
    by (simp add: sample_generate_def device_A_def device_B_def)
  show ?thesis
    using ne conjunct1 [OF pruning_unregisters_unseen_accessories [where generate = sample_generate and A = device_A
        and B = device_B and h = "\<lambda>_. blank_accessory" and n = 0, OF ne]]
    by (auto simp add: Let_def sample_world_def [symmetric] sample_world_heap)
qed

text \<open>
  Claim C4. The three set handlers change nothing but the trace of calls: the object store,
  and so the cached status of every accessory, is as before, whether or not a status is
  cached. Of all entry points only a status update of the AIRMX client changes the cached
  status of an existing accessory.
\<close>

theorem set_handlers_leave_status_unchanged:
  "(handleActiveSet this v w)\<lparr>trace := trace w\<rparr> = w
   \<and> (handleTargetAirPurifierStateSet this v w)\<lparr>trace := trace w\<rparr> = w
   \<and> (handleRotationSpeedSet this v w)\<lparr>trace := trace w\<rparr> = w
   \<and> this_status a (handleActiveSet this v w) = this_status a w
   \<and> this_status a (handleTargetAirPurifierStateSet this v w) = this_status a w
   \<and> this_status a (handleRotationSpeedSet this v w) = this_status a w
   \<and> (a < fresh w \<and> \<not> is_EagleUpdate rq \<longrightarrow>
        this_status a (serve generate rq w) = this_status a w)"
proof -
  have "this_status a (handleActiveSet this v w) = this_status a w"
    using trace_update_heap [OF set_handler_frames(1)] by (simp add: this_status_def)
  moreover have "this_status a (handleTargetAirPurifierStateSet this v w) = this_status a w"
    using trace_update_heap [OF set_handler_frames(2)] by (simp add: this_status_def)
  moreover have "this_status a (handleRotationSpeedSet this v w) = this_status a w"
    using trace_update_heap [OF set_handler_frames(3)] by (simp add: this_status_def)
  moreover have "a < fresh w \<and> \<not> is_EagleUpdate rq \<longrightarrow>
        this_status a (serve generate rq w) = this_status a w"
    using serve_heap [of a w rq generate] by (simp add: this_status_def)
  ultimately show ?thesis
    by (simp only: set_handler_frames simp_thms)
qed

theorem set_handlers_leave_status_unchanged_witness:
  "0 < fresh (reported_world ''1.0'') \<and> \<not> is_EagleUpdate (RotationSpeedSet 0 55)
   \<and> this_status 0 (handleRotationSpeedSet 0 55 (reported_world ''1.0'')) =
       Some \<lparr>power = 1, mode = 1, cadr = 30, g4Percent = 10, carbonPercent = 80,
             hepaPercent = 20, version = ''1.0''\<rparr>
   \<and> trace (handleRotationSpeedSet 0 55 (reported_world ''1.0'')) =
       trace (reported_world ''1.0'') @ [DeviceCadr 1 55]"
  using set_handlers_leave_status_unchanged [where this = 0 and v = 55 and w = "reported_world ''1.0''" and a = 0
      and rq = "RotationSpeedSet 0 55" and generate = sample_generate]
  by (simp add: reported_world_fresh reported_world_status reported_world_device
      handleRotationSpeedSet_def emit_def device_A_def)

text \<open>
  Claim C5. A status update whose UUID is not a key of the accessories map only logs the
  reception: the map, the object store and so every cached status stay as they were.
\<close>

theorem unknown_device_update_dropped:
  assumes "map_of (accessories w) (generate (deviceId st)) = None"
  shows "onEagleUpdate generate st w =
           emit (LogInfo ''Receive a status update from device:'' (deviceId st)) w
       \<and> accessories (onEagleUpdate generate st w) = accessories w
       \<and> heap (onEagleUpdate generate st w) = heap w"
  using assms by (simp add: onEagleUpdate_def emit_def Let_def)

theorem unknown_device_update_dropped_witness:
  "map_of (accessories sample_world) (sample_generate (deviceId (sample_status_B\<lparr>deviceId := 3\<rparr>))) = None
   \<and> accessories (onEagleUpdate sample_generate (sample_status_B\<lparr>deviceId := 3\<rparr>) sample_world) =
       [(''uuid-1'', 0), (''uuid-2'', 1)]
   \<and> this_status 0 (onEagleUpdate sample_generate (sample_status_B\<lparr>deviceId := 3\<rparr>) sample_world) = None
   \<and> trace (onEagleUpdate sample_generate (sample_status_B\<lparr>deviceId := 3\<rparr>) sample_world) =
       trace sample_world @ [LogInfo ''Receive a status update from device:'' 3]"
proof -
  have k: "map_of (accessories sample_world)
             (sample_generate (deviceId (sample_status_B\<lparr>deviceId := 3\<rparr>))) = None"
    by (simp add: sample_world_accessories sample_generate_def sample_status_B_def)
  show ?thesis
    using unknown_device_update_dropped [where w = sample_world and generate = sample_generate
        and st = "sample_status_B\<lparr>deviceId := 3\<rparr>", OF k] k
    by (simp add: sample_world_accessories sample_world_heap this_status_def emit_def)
qed

text \<open>
  Claim C10. \<open>cleanUpObsolete\<close> unregisters an accessory that was not discovered but
  leaves the accessories map as it is, so a later status update for that device still finds
  the accessory and overwrites its cached status.
\<close>

theorem pruned_accessory_still_receives_updates:
  assumes "map_of (accessories w) (generate (deviceId st)) = Some a"
      and "generate (deviceId st) \<notin> set (discoveredUuids w)"
  shows "a \<in> set (unregistered (trace (cleanUpObsolete w)))
       \<and> accessories (cleanUpObsolete w) = accessories w
       \<and> this_status a (onEagleUpdate generate st (cleanUpObsolete w)) =
           Some \<lparr>power = power st, mode = mode st, cadr = cadr st,
                 g4Percent = g4Percent st, carbonPercent = carbonPercent st,
                 hepaPercent = hepaPercent st, version = version st\<rparr>"
proof -
  have "(generate (deviceId st), a) \<in> set (accessories w)"
    using assms(1) by (rule map_of_SomeD)
  then have "a \<in> set (unregistered (trace (cleanUpObsolete w)))"
    using assms(2) by (force simp add: unregistered_cleanUpObsolete)
  moreover have "accessories (cleanUpObsolete w) = accessories w"
    by (simp add: cleanUpObsolete_eq)
  moreover have "this_status a (onEagleUpdate generate st (cleanUpObsolete w)) =
           Some \<lparr>power = power st, mode = mode st, cadr = cadr st,
                 g4Percent = g4Percent st, carbonPercent = carbonPercent st,
                 hepaPercent = hepaPercent st, version = version st\<rparr>"
    using assms(1)
    by (simp add: cleanUpObsolete_eq onEagleUpdate_def emit_def Let_def this_status_def
        set_status_def)
  ultimately show ?thesis by simp
qed

theorem pruned_accessory_still_receives_updates_witness:
  "map_of (accessories restarted_world) (sample_generate (deviceId sample_status_B)) = Some (Suc 0)
   \<and> sample_generate (deviceId sample_status_B) \<notin> set (discoveredUuids restarted_world)
   \<and> Suc 0 \<in> set (unregistered (trace (cleanUpObsolete restarted_world)))
   \<and> accessories (cleanUpObsolete restarted_world) = [(''uuid-1'', 0), (''uuid-2'', Suc 0)]
   \<and> this_status (Suc 0)
        (onEagleUpdate sample_generate sample_status_B (cleanUpObsolete restarted_world)) =
       Some \<lparr>power = 0, mode = 0, cadr = 47, g4Percent = 81, carbonPercent = 5,
             hepaPercent = 5, version = ''2.1''\<rparr>"
proof -
  have k: "map_of (accessories restarted_world) (sample_generate (deviceId sample_status_B)) = Some (Suc 0)"
    by (simp add: restarted_world_accessories sample_generate_def sample_status_B_def)
  have d: "sample_generate (deviceId sample_status_B) \<notin> set (discoveredUuids restarted_world)"
    by (simp add: restarted_world_accessories sample_generate_def sample_status_B_def)
  show ?thesis
    using pruned_accessory_still_receives_updates [where w = restarted_world and generate = sample_generate
        and st = sample_status_B and a = "Suc 0", OF k d] k d
    by (simp add: restarted_world_accessories sample_status_B_def)
qed

end
